theory Spec2Isabelle
  imports Complex_Main "HOL-Library.Sublist"
begin

section \<open>Values, errors and tables\<close>

text \<open>
  The chart base class of \<^verbatim>\<open>pandas_alive/_base_chart.py\<close> works on pandas frames
  and on a matplotlib axes. A float is an exact rational here, and a missing cell (NaN,
  NaT) is \<open>None\<close>. Exceptions are values: \<open>Raised\<close> is a \<^verbatim>\<open>raise\<close> statement of
  the source with its message, \<open>Lib\<close> an exception that comes out of a call into
  Python, pandas, numpy or matplotlib.
\<close>

datatype exc =
  PyException | ValueError | TypeError | IndexError | KeyError | AttributeError
  | NotImplementedError

datatype error = Raised exc string | Lib exc

type_synonym float = "rat option"

text \<open>A scalar as it occurs in a keyword dictionary: an int, a float or a string.\<close>

datatype pyval = PInt int | PFloat rat | PStr string

type_synonym pydict = "(string \<times> pyval) list"

definition has_key :: "pydict \<Rightarrow> string \<Rightarrow> bool" where
  "has_key d k = (k \<in> set (map fst d))"

text \<open>Column labels are strings or integers; \<open>str_label\<close> is Python's \<^verbatim>\<open>str\<close>.\<close>

datatype label = LStr string | LInt int

fun digits :: "nat \<Rightarrow> string" where
  "digits n =
     (if n < 10 then [char_of (48 + n)]
      else digits (n div 10) @ [char_of (48 + n mod 10)])"

declare digits.simps [simp del]

definition str_int :: "int \<Rightarrow> string" where
  "str_int i = (if i < 0 then CHR ''-'' # digits (nat (- i)) else digits (nat i))"

fun str_label :: "label \<Rightarrow> string" where
  "str_label (LStr s) = s"
| "str_label (LInt i) = str_int i"

text \<open>
  A column is a typed sequence of cells. \<open>Numeric\<close> stands for the int and float
  dtypes, \<open>Datetime\<close> holds timestamps in nanoseconds, \<open>Object\<close> holds strings.
\<close>

datatype series =
  Numeric "rat option list" | Datetime "int option list" | Object "string option list"

datatype dtype = NumberDtype | Datetime64 | ObjectDtype

fun dtype_of :: "series \<Rightarrow> dtype" where
  "dtype_of (Numeric xs) = NumberDtype"
| "dtype_of (Datetime ts) = Datetime64"
| "dtype_of (Object ss) = ObjectDtype"

fun kind :: "dtype \<Rightarrow> char" where
  "kind NumberDtype = CHR ''f''"
| "kind Datetime64 = CHR ''M''"
| "kind ObjectDtype = CHR ''O''"

text \<open>\<^verbatim>\<open>np.issubdtype(dtype, np.number)\<close>\<close>

fun issubdtype_number :: "dtype \<Rightarrow> bool" where
  "issubdtype_number NumberDtype = True"
| "issubdtype_number Datetime64 = False"
| "issubdtype_number ObjectDtype = False"

fun slen :: "series \<Rightarrow> nat" where
  "slen (Numeric xs) = length xs"
| "slen (Datetime ts) = length ts"
| "slen (Object ss) = length ss"

text \<open>
  The row labels of a table are ordinal (numbers) or time-valued (nanoseconds), as the
  data model of the specification has them, and none of them is missing.
\<close>

datatype index = Ordinal "rat list" | Timed "int list"

fun ilen :: "index \<Rightarrow> nat" where
  "ilen (Ordinal xs) = length xs"
| "ilen (Timed ts) = length ts"

record table =
  index :: index
  columns :: "(label \<times> series) list"

definition column_labels :: "table \<Rightarrow> label list" where
  "column_labels df = map fst (columns df)"

definition nrows :: "table \<Rightarrow> nat" where
  "nrows t = ilen (index t)"

text \<open>
  \<^verbatim>\<open>df[col].dtype\<close>: a label that occurs once selects its column; a label that occurs
  several times selects a frame, which has no \<^verbatim>\<open>dtype\<close>; an absent label is a
  \<^verbatim>\<open>KeyError\<close>.
\<close>

definition getitem_dtype :: "table \<Rightarrow> label \<Rightarrow> error + dtype" where
  "getitem_dtype df col =
     (case filter (\<lambda>c. fst c = col) (columns df) of
        [] \<Rightarrow> Inl (Lib KeyError)
      | [c] \<Rightarrow> Inr (dtype_of (snd c))
      | _ \<Rightarrow> Inl (Lib AttributeError))"

section \<open>Column Selector: \<^verbatim>\<open>get_data_cols\<close>\<close>

definition missing_column_msg :: "label \<Rightarrow> string" where
  "missing_column_msg col =
     ''Could not find '' @ [CHR 0x27] @ str_label col @ [CHR 0x27] @
     '' in the columns of the provided DataFrame/Series. Please provide for the <y> parameter either a column name of the DataFrame/Series or an array of the same length.''"

definition no_numeric_msg :: string where
  "no_numeric_msg = ''No numeric data columns found for plotting.''"

text \<open>
  The loop \<^verbatim>\<open>for i, col in enumerate(df.columns)\<close>: the labels still to visit and
  the list \<^verbatim>\<open>data_cols\<close> built so far.
\<close>

fun data_cols_loop :: "table \<Rightarrow> label list \<Rightarrow> label list \<Rightarrow> error + label list" where
  "data_cols_loop df [] data_cols = Inr data_cols"
| "data_cols_loop df (col # rest) data_cols =
     (if col \<notin> set (column_labels df)
      then Inl (Raised PyException (missing_column_msg col))
      else
        (case getitem_dtype df col of
           Inl e \<Rightarrow> Inl e
         | Inr t \<Rightarrow>
             if issubdtype_number t
             then data_cols_loop df rest (data_cols @ [col])
             else data_cols_loop df rest data_cols))"

definition get_data_cols :: "table \<Rightarrow> error + string list" where
  "get_data_cols df =
     (case data_cols_loop df (column_labels df) [] of
        Inl e \<Rightarrow> Inl e
      | Inr data_cols \<Rightarrow>
          if data_cols = [] then Inl (Raised PyException no_numeric_msg)
          else Inr (map str_label data_cols))"

text \<open>The columns whose values are numeric, in the order of the table.\<close>

definition numeric_labels :: "table \<Rightarrow> label list" where
  "numeric_labels df =
     map fst (filter (\<lambda>c. issubdtype_number (dtype_of (snd c))) (columns df))"

section \<open>Period label placement: \<^verbatim>\<open>get_period_label\<close>\<close>

text \<open>The argument is a bool or a keyword dictionary; an empty dictionary is falsy.\<close>

datatype period_label = PLBool bool | PLDict pydict

fun truthy :: "period_label \<Rightarrow> bool" where
  "truthy (PLBool b) = b"
| "truthy (PLDict d) = (d \<noteq> [])"

definition default_period_label :: pydict where
  "default_period_label =
     [(''size'', PInt 12), (''x'', PFloat (9 / 10)), (''y'', PFloat (1 / 10)),
      (''ha'', PStr ''right'')]"

definition period_label_msg :: string where
  "period_label_msg = ''`period_label` dictionary must have keys for \"x\" and \"y\"''"

definition get_period_label :: "period_label \<Rightarrow> error + period_label" where
  "get_period_label period_label =
     (if \<not> truthy period_label then Inr (PLBool False)
      else if period_label = PLBool True then Inr (PLDict default_period_label)
      else
        (case period_label of
           PLDict d \<Rightarrow>
             if \<not> has_key d ''x'' \<or> \<not> has_key d ''y''
             then Inl (Raised ValueError period_label_msg)
             else Inr period_label
         | PLBool b \<Rightarrow> Inr period_label))"

section \<open>Color Resolver: \<^verbatim>\<open>get_colors\<close>\<close>

datatype color = ColorName string | RGBA rat rat rat rat

text \<open>A matplotlib colormap: its number of entries \<open>N\<close> and its lookup table.\<close>

record colormap =
  N :: nat
  lut :: "nat \<Rightarrow> color"

text \<open>
  The two matplotlib calls of the resolver are parameters: \<^verbatim>\<open>plt.cm.get_cmap\<close>
  (a \<^verbatim>\<open>ValueError\<close> for a name that is no registered map) and \<^verbatim>\<open>to_rgba\<close>.
\<close>

record mpl =
  get_cmap :: "string \<Rightarrow> exc + colormap"
  to_rgba :: "string \<Rightarrow> exc + color"

text \<open>
  What the caller may pass as \<^verbatim>\<open>cmap\<close>: a string, a colormap instance, a list, an
  object with a \<^verbatim>\<open>tolist\<close> method (an array), or anything else.
\<close>

datatype cmap_spec =
  CmapStr string | CmapObj colormap | CmapList "color list" | CmapArray "color list"
  | CmapOther

definition DARK24 :: "color list" where
  "DARK24 = map ColorName
     [''#2E91E5'', ''#E15F99'', ''#1CA71C'', ''#FB0D0D'', ''#DA16FF'', ''#222A2A'',
      ''#B68100'', ''#750D86'', ''#EB663B'', ''#511CFB'', ''#00A08B'', ''#FB00D1'',
      ''#FC0080'', ''#B2828D'', ''#6C7C32'', ''#778AAE'', ''#862A16'', ''#A777F1'',
      ''#620042'', ''#1616A7'', ''#DA60CA'', ''#6C4516'', ''#0D2A63'', ''#AF0038'']"

definition color_name_msg :: string where
  "color_name_msg = ''Provide a suitable color name or color map as per matplotlib''"

definition cmap_type_msg :: string where
  "cmap_type_msg =
     ''`cmap` must be a string name of a color, a matplotlib colormap instance or a list of colors''"

text \<open>
  The \<^verbatim>\<open>try\<close> block that resolves a string. The handler of \<^verbatim>\<open>ValueError\<close> calls
  \<^verbatim>\<open>to_rgba\<close> first and \<^verbatim>\<open>get_data_cols\<close> second; what they raise leaves the
  handler as it is.
\<close>

definition resolve_name :: "mpl \<Rightarrow> table \<Rightarrow> string \<Rightarrow> error + cmap_spec" where
  "resolve_name m df cmap =
     (if cmap = ''dark24'' then Inr (CmapList DARK24)
      else
        (case get_cmap m cmap of
           Inr cm \<Rightarrow> Inr (CmapObj cm)
         | Inl ValueError \<Rightarrow>
             (case to_rgba m cmap of
                Inl e \<Rightarrow> Inl (Lib e)
              | Inr c \<Rightarrow>
                  (case get_data_cols df of
                     Inl e \<Rightarrow> Inl e
                   | Inr cols \<Rightarrow> Inr (CmapList (replicate (length cols) c))))
         | Inl _ \<Rightarrow> Inl (Raised ValueError color_name_msg)))"

fun chart_colors :: "cmap_spec \<Rightarrow> error + color list" where
  "chart_colors (CmapObj cm) = Inr (map (lut cm) [0..<N cm])"
| "chart_colors (CmapList cs) = Inr cs"
| "chart_colors (CmapArray cs) = Inr cs"
| "chart_colors _ = Inl (Raised TypeError cmap_type_msg)"

definition get_colors :: "mpl \<Rightarrow> table \<Rightarrow> cmap_spec \<Rightarrow> error + color list" where
  "get_colors m df cmap =
     (case cmap of
        CmapStr name \<Rightarrow>
          (case resolve_name m df name of
             Inl e \<Rightarrow> Inl e
           | Inr cmap' \<Rightarrow> chart_colors cmap')
      | _ \<Rightarrow> chart_colors cmap)"

section \<open>Interpolation Engine: \<^verbatim>\<open>get_interpolated_df\<close>\<close>

text \<open>
  \<^verbatim>\<open>df.reset_index()\<close> gives a frame whose row labels are the positions
  \<open>0, 1, 2, \<dots>\<close> and whose first column is the former index. The name of that column
  plays no role: the source addresses it by position.
\<close>

record positional =
  positions :: "int list"
  first_col :: series
  other_cols :: "(label \<times> series) list"

fun index_series :: "index \<Rightarrow> series" where
  "index_series (Ordinal xs) = Numeric (map Some xs)"
| "index_series (Timed ts) = Datetime (map Some ts)"

definition reset_index :: "table \<Rightarrow> positional" where
  "reset_index df =
     \<lparr>positions = map int [0..<ilen (index df)],
      first_col = index_series (index df),
      other_cols = columns df\<rparr>"

text \<open>
  \<^verbatim>\<open>reindex(new_index)\<close>: the row of each new label, or a row of missing cells where
  the frame has no such label. pandas refuses a frame with repeated row labels.
\<close>

definition reindex_cells :: "int list \<Rightarrow> int list \<Rightarrow> 'a option list \<Rightarrow> 'a option list" where
  "reindex_cells pos new_index xs =
     map (\<lambda>j. case map_of (zip pos xs) j of None \<Rightarrow> None | Some c \<Rightarrow> c) new_index"

fun reindex_series :: "int list \<Rightarrow> int list \<Rightarrow> series \<Rightarrow> series" where
  "reindex_series pos new_index (Numeric xs) = Numeric (reindex_cells pos new_index xs)"
| "reindex_series pos new_index (Datetime ts) = Datetime (reindex_cells pos new_index ts)"
| "reindex_series pos new_index (Object ss) = Object (reindex_cells pos new_index ss)"

definition reindex :: "positional \<Rightarrow> int list \<Rightarrow> error + positional" where
  "reindex f new_index =
     (if \<not> distinct (positions f) then Inl (Lib ValueError)
      else Inr
        \<lparr>positions = new_index,
         first_col = reindex_series (positions f) new_index (first_col f),
         other_cols =
           map (\<lambda>c. (fst c, reindex_series (positions f) new_index (snd c))) (other_cols f)\<rparr>)"

text \<open>\<^verbatim>\<open>fillna(method="ffill")\<close>: a missing cell takes the last cell seen before it.\<close>

fun ffill_from :: "'a option \<Rightarrow> 'a option list \<Rightarrow> 'a option list" where
  "ffill_from seen [] = []"
| "ffill_from seen (None # xs) = seen # ffill_from seen xs"
| "ffill_from seen (Some x # xs) = Some x # ffill_from (Some x) xs"

fun fillna_ffill :: "series \<Rightarrow> series" where
  "fillna_ffill (Numeric xs) = Numeric (ffill_from None xs)"
| "fillna_ffill (Datetime ts) = Datetime (ffill_from None ts)"
| "fillna_ffill (Object ss) = Object (ffill_from None ss)"

text \<open>
  \<^verbatim>\<open>interpolate()\<close> of pandas, forward direction: a missing cell between two known
  points lies on the line through them, a missing cell after the last known point
  repeats it, a missing cell before the first known point stays missing. The points
  are \<open>(x, y)\<close> pairs: \<open>x\<close> is the row position for the method \<^verbatim>\<open>linear\<close> and the row
  label for the method \<^verbatim>\<open>time\<close>.
\<close>

fun next_valid :: "(rat \<times> rat option) list \<Rightarrow> (rat \<times> rat) option" where
  "next_valid [] = None"
| "next_valid ((x, None) # ps) = next_valid ps"
| "next_valid ((x, Some y) # ps) = Some (x, y)"

fun interp_from :: "(rat \<times> rat) option \<Rightarrow> (rat \<times> rat option) list \<Rightarrow> rat option list" where
  "interp_from prev [] = []"
| "interp_from prev ((x, Some y) # ps) = Some y # interp_from (Some (x, y)) ps"
| "interp_from prev ((x, None) # ps) =
     (case prev of
        None \<Rightarrow> None
      | Some (x0, y0) \<Rightarrow>
          (case next_valid ps of
             None \<Rightarrow> Some y0
           | Some (x1, y1) \<Rightarrow> Some (y0 + (x - x0) * (y1 - y0) / (x1 - x0))))
     # interp_from prev ps"

definition interp :: "rat list \<Rightarrow> rat option list \<Rightarrow> rat option list" where
  "interp xs ys = interp_from None (zip xs ys)"

text \<open>
  The interpolation of one column over the coordinates \<open>xs\<close>. pandas interpolates a
  numeric column, hands back a column of strings as it is, and refuses a time-valued
  column with a \<^verbatim>\<open>ValueError\<close> (its fill method is not \<^verbatim>\<open>linear\<close>).
\<close>

fun interpolate_by :: "rat list \<Rightarrow> series \<Rightarrow> error + series" where
  "interpolate_by xs (Numeric ys) = Inr (Numeric (interp xs ys))"
| "interpolate_by xs (Datetime ts) = Inl (Lib ValueError)"
| "interpolate_by xs (Object ss) = Inr (Object ss)"

text \<open>\<^verbatim>\<open>Series.interpolate()\<close>: the method \<^verbatim>\<open>linear\<close>, over the row positions.\<close>

definition interpolate_linear :: "series \<Rightarrow> error + series" where
  "interpolate_linear s = interpolate_by (map rat_of_nat [0..<slen s]) s"

text \<open>
  \<^verbatim>\<open>pd.date_range(first, last, periods=n)\<close>: \<open>n\<close> evenly spaced timestamps from
  \<open>first\<close> to \<open>last\<close>, cut to whole nanoseconds.
\<close>

definition date_range :: "int \<Rightarrow> int \<Rightarrow> nat \<Rightarrow> int list" where
  "date_range first lst periods =
     (if periods \<le> 1 then replicate periods first
      else map (\<lambda>k. first + (int k * (lst - first)) div (int periods - 1)) [0..<periods])"

text \<open>
  The branch for a time-valued first column: \<^verbatim>\<open>iloc[[0, -1], 0]\<close> needs a row, and
  \<^verbatim>\<open>date_range\<close> refuses a missing end point.
\<close>

definition date_range_column :: "int option list \<Rightarrow> error + series" where
  "date_range_column ts =
     (if ts = [] then Inl (Lib IndexError)
      else
        (case (hd ts, last ts) of
           (Some first, Some lst) \<Rightarrow>
             Inr (Datetime (map Some (date_range first lst (length ts))))
         | _ \<Rightarrow> Inl (Lib ValueError)))"

definition fill_first_col :: "bool \<Rightarrow> series \<Rightarrow> error + series" where
  "fill_first_col interpolate_period col =
     (if interpolate_period then
        (if kind (dtype_of col) = CHR ''M'' then
           (case col of Datetime ts \<Rightarrow> date_range_column ts | _ \<Rightarrow> Inr col)
         else interpolate_linear col)
      else Inr (fillna_ffill col))"

text \<open>
  \<^verbatim>\<open>set_index\<close> makes the first column the row labels again. After the fill no label
  is missing (lemma \<open>fill_first_col_complete\<close> below); the last case only makes the
  function total.
\<close>

fun index_of_series :: "series \<Rightarrow> index option" where
  "index_of_series (Numeric xs) = map_option Ordinal (those xs)"
| "index_of_series (Datetime ts) = map_option Timed (those ts)"
| "index_of_series (Object ss) = None"

definition set_index :: "series \<Rightarrow> (label \<times> series) list \<Rightarrow> error + table" where
  "set_index col cols =
     (case index_of_series col of
        Some ix \<Rightarrow> Inr \<lparr>index = ix, columns = cols\<rparr>
      | None \<Rightarrow> Inl (Lib NotImplementedError))"

text \<open>
  \<^verbatim>\<open>DataFrame.interpolate\<close>. An empty frame (no row or no column) is copied. A frame
  whose columns are all of object dtype is refused with a \<^verbatim>\<open>TypeError\<close>. Otherwise
  the columns are interpolated one by one, and the first column that pandas refuses
  ends the call.
\<close>

fun interpolate_columns :: "rat list \<Rightarrow> (label \<times> series) list \<Rightarrow> error + (label \<times> series) list" where
  "interpolate_columns xs [] = Inr []"
| "interpolate_columns xs (c # cs) =
     (case interpolate_by xs (snd c) of
        Inl e \<Rightarrow> Inl e
      | Inr s \<Rightarrow>
          (case interpolate_columns xs cs of
             Inl e \<Rightarrow> Inl e
           | Inr rest \<Rightarrow> Inr ((fst c, s) # rest)))"

definition interpolate_with :: "rat list option \<Rightarrow> table \<Rightarrow> error + table" where
  "interpolate_with coords t =
     (if nrows t = 0 \<or> columns t = [] then Inr t
      else if list_all (\<lambda>c. dtype_of (snd c) = ObjectDtype) (columns t)
      then Inl (Lib TypeError)
      else
        (case coords of
           None \<Rightarrow> Inl (Lib ValueError)
         | Some xs \<Rightarrow>
             (case interpolate_columns xs (columns t) of
                Inl e \<Rightarrow> Inl e
              | Inr cols \<Rightarrow> Inr (t\<lparr>columns := cols\<rparr>))))"

text \<open>
  \<^verbatim>\<open>interpolate()\<close> takes the row positions as coordinates.
  \<^verbatim>\<open>interpolate(method="time")\<close> takes the row labels and works with time-valued
  labels only: with other labels it ends in a \<^verbatim>\<open>ValueError\<close>.
\<close>

definition interpolate_frame :: "table \<Rightarrow> error + table" where
  "interpolate_frame t = interpolate_with (Some (map rat_of_nat [0..<nrows t])) t"

definition interpolate_time :: "table \<Rightarrow> error + table" where
  "interpolate_time t =
     interpolate_with
       (case index t of Timed ts \<Rightarrow> Some (map rat_of_int ts) | Ordinal xs \<Rightarrow> None) t"

fun is_datetime_index :: "index \<Rightarrow> bool" where
  "is_datetime_index (Timed ts) = True"
| "is_datetime_index (Ordinal xs) = False"

text \<open>
  The method itself. \<open>self_df\<close> is the attribute \<^verbatim>\<open>self.df\<close> that the last test
  reads; the constructor calls the method on \<^verbatim>\<open>self.df\<close> itself.
\<close>

definition get_interpolated_df :: "table \<Rightarrow> table \<Rightarrow> int \<Rightarrow> bool \<Rightarrow> error + table" where
  "get_interpolated_df self_df df steps_per_period interpolate_period =
     (let interpolated_df = reset_index df;
          interpolated_df = interpolated_df
            \<lparr>positions := map (\<lambda>p. p * steps_per_period) (positions interpolated_df)\<rparr>
      in
        if positions interpolated_df = [] then Inl (Lib IndexError)
        else
          (case reindex interpolated_df [0..last (positions interpolated_df)] of
             Inl e \<Rightarrow> Inl e
           | Inr interpolated_df \<Rightarrow>
               (case fill_first_col interpolate_period (first_col interpolated_df) of
                  Inl e \<Rightarrow> Inl e
                | Inr col \<Rightarrow>
                    (case set_index col (other_cols interpolated_df) of
                       Inl e \<Rightarrow> Inl e
                     | Inr interpolated_df \<Rightarrow>
                         if interpolate_period \<and> is_datetime_index (index self_df)
                         then interpolate_time interpolated_df
                         else interpolate_frame interpolated_df))))"

section \<open>The chart object and the axes\<close>

text \<open>
  The attributes of \<^verbatim>\<open>_BaseChart\<close> that the methods below read. \<open>df\<close> is the
  interpolated table. A summary function is any callable: it receives the row of the
  current frame and returns a dictionary. A function has a \<^verbatim>\<open>__name__\<close>; a
  \<^verbatim>\<open>functools.partial\<close> object or an instance with a \<^verbatim>\<open>__call__\<close> method has none,
  and reading the attribute raises \<^verbatim>\<open>AttributeError\<close>.
\<close>

datatype cell = CNum "rat option" | CTime "int option" | CStr "string option"

record summary_func =
  func_name :: "string option"
  func_call :: "(label \<times> cell) list \<Rightarrow> pydict"

record chart =
  df :: table
  period_fmt :: string
  period_label :: period_label
  period_summary_func :: "summary_func option"
  fixed_max :: bool

text \<open>
  A text element of the axes holds its string and its other keyword arguments;
  \<^verbatim>\<open>ax.texts\<close> is the list of the elements in the order of their creation.
\<close>

record text_elem =
  get_text :: pyval
  kwargs :: pydict

record axes =
  texts :: "text_elem list"

definition set_text :: "pyval \<Rightarrow> text_elem \<Rightarrow> text_elem" where
  "set_text v t = t\<lparr>get_text := v\<rparr>"

text \<open>
  The calls of the annotator into Python, pandas and matplotlib are parameters: the
  string functions that format a row label (\<^verbatim>\<open>Timestamp.strftime\<close>;
  \<^verbatim>\<open>str.format(x=...)\<close>, which may raise; the conversion of a label by
  \<^verbatim>\<open>astype(str)\<close>), and the constructor of a matplotlib text element. \<open>text_error\<close>
  is the exception with which the constructor refuses the keyword arguments of a call
  (an \<^verbatim>\<open>AttributeError\<close> for a keyword that is no property of a text element), or
  \<open>None\<close> when it accepts them.
\<close>

record formatting =
  strftime :: "int \<Rightarrow> string \<Rightarrow> string"
  format_x :: "string \<Rightarrow> rat \<Rightarrow> exc + string"
  str_number :: "rat \<Rightarrow> string"
  str_timestamp :: "int \<Rightarrow> string"
  text_error :: "pydict \<Rightarrow> exc option"

text \<open>
  A call \<^verbatim>\<open>ax.text(k1=v1, ..., transform=ax.transAxes, **kw)\<close>. Python refuses a
  keyword given twice and a call without \<^verbatim>\<open>x\<close>, \<^verbatim>\<open>y\<close> or \<^verbatim>\<open>s\<close>; matplotlib
  builds the element before it adds it, so a refused element leaves \<^verbatim>\<open>ax.texts\<close>
  as it was; otherwise the new element is appended to \<^verbatim>\<open>ax.texts\<close>.
\<close>

definition ax_text :: "formatting \<Rightarrow> pydict \<Rightarrow> pydict \<Rightarrow> axes \<Rightarrow> error + axes" where
  "ax_text lib explicit kw ax =
     (if list_ex (has_key kw) (map fst explicit) \<or> has_key kw ''transform''
      then Inl (Lib TypeError)
      else
        (let args = explicit @ kw in
         case (map_of args ''x'', map_of args ''y'', map_of args ''s'') of
           (Some x, Some y, Some s) \<Rightarrow>
             (case text_error lib args of
                Some e \<Rightarrow> Inl (Lib e)
              | None \<Rightarrow>
                  Inr (ax\<lparr>texts := texts ax @
                    [\<lparr>get_text = s, kwargs = filter (\<lambda>kv. fst kv \<noteq> ''s'') args\<rparr>]\<rparr>))
         | _ \<Rightarrow> Inl (Lib TypeError)))"

section \<open>Axis Scaler: the y bounds of \<^verbatim>\<open>set_x_y_limits\<close>\<close>

text \<open>
  Float arithmetic with NaN: an operation on NaN gives NaN, a comparison with NaN is
  false.
\<close>

definition fsub :: "float \<Rightarrow> float \<Rightarrow> float" where
  "fsub a b = (case (a, b) of (Some x, Some y) \<Rightarrow> Some (x - y) | _ \<Rightarrow> None)"

definition fadd :: "float \<Rightarrow> float \<Rightarrow> float" where
  "fadd a b = (case (a, b) of (Some x, Some y) \<Rightarrow> Some (x + y) | _ \<Rightarrow> None)"

definition fmul :: "float \<Rightarrow> float \<Rightarrow> float" where
  "fmul a b = (case (a, b) of (Some x, Some y) \<Rightarrow> Some (x * y) | _ \<Rightarrow> None)"

definition fge :: "float \<Rightarrow> float \<Rightarrow> bool" where
  "fge a b = (case (a, b) of (Some x, Some y) \<Rightarrow> x \<ge> y | _ \<Rightarrow> False)"

definition fle :: "float \<Rightarrow> float \<Rightarrow> bool" where
  "fle a b = (case (a, b) of (Some x, Some y) \<Rightarrow> x \<le> y | _ \<Rightarrow> False)"

definition fmax :: "float \<Rightarrow> float \<Rightarrow> float" where
  "fmax a b = (case (a, b) of (Some x, Some y) \<Rightarrow> Some (max x y) | _ \<Rightarrow> None)"

definition fmin :: "float \<Rightarrow> float \<Rightarrow> float" where
  "fmin a b = (case (a, b) of (Some x, Some y) \<Rightarrow> Some (min x y) | _ \<Rightarrow> None)"

text \<open>
  \<^verbatim>\<open>.max()\<close> and \<^verbatim>\<open>.min()\<close> of a numpy array: a \<^verbatim>\<open>ValueError\<close> on an empty
  array, NaN as soon as one cell is NaN.
\<close>

definition amax :: "float list \<Rightarrow> error + float" where
  "amax xs = (case xs of [] \<Rightarrow> Inl (Lib ValueError) | x # r \<Rightarrow> Inr (fold fmax r x))"

definition amin :: "float list \<Rightarrow> error + float" where
  "amin xs = (case xs of [] \<Rightarrow> Inl (Lib ValueError) | x # r \<Rightarrow> Inr (fold fmin r x))"

text \<open>
  \<^verbatim>\<open>frame.iloc[:k].values\<close>: the cells of the first \<open>k\<close> rows. The reductions need
  numbers: a table with a column of another type gives a \<^verbatim>\<open>TypeError\<close>.
\<close>

fun numeric_cells :: "series \<Rightarrow> float list option" where
  "numeric_cells (Numeric xs) = Some xs"
| "numeric_cells (Datetime ts) = None"
| "numeric_cells (Object ss) = None"

definition values_upto :: "table \<Rightarrow> nat \<Rightarrow> error + float list" where
  "values_upto t k =
     (case those (map (\<lambda>c. numeric_cells (snd c)) (columns t)) of
        None \<Rightarrow> Inl (Lib TypeError)
      | Some cols \<Rightarrow> Inr (concat (map (take (min k (nrows t))) cols)))"

definition values_of :: "table \<Rightarrow> error + float list" where
  "values_of t = values_upto t (nrows t)"

text \<open>
  The padding as the specification words it: 5% of (global max - global min), over the
  cells of the whole table.
\<close>

definition spec_padding :: "rat list \<Rightarrow> rat" where
  "spec_padding vs = (Max (set vs) - Min (set vs)) * 5 / 100"

text \<open>
  Lines 284 to 297 of the source: the two arguments that \<^verbatim>\<open>set_x_y_limits\<close> passes to
  \<^verbatim>\<open>ax.set_ylim\<close> at frame \<open>i\<close>. The x bounds, set before, do not enter them.
\<close>

definition y_limits :: "chart \<Rightarrow> nat \<Rightarrow> error + float \<times> float" where
  "y_limits self i =
     (case values_of (df self) of
        Inl e \<Rightarrow> Inl e
      | Inr vals \<Rightarrow>
     (case amax vals of
        Inl e \<Rightarrow> Inl e
      | Inr vmax \<Rightarrow>
     (case amin vals of
        Inl e \<Rightarrow> Inl e
      | Inr vmin \<Rightarrow>
         (let ylim_scale = fmul (fsub vmax vmin) (Some (5 / 100));
              ylim_bot_scale = (if fge vmin (Some 0) then Some 0 else ylim_scale);
              ylim_top_scale = (if fle vmax (Some 0) then Some 0 else ylim_scale)
          in
            if fixed_max self
            then Inr (fsub vmin ylim_bot_scale, fadd vmax ylim_top_scale)
            else
              (case values_upto (df self) (i + 1) of
                 Inl e \<Rightarrow> Inl e
               | Inr part \<Rightarrow>
              (case amin part of
                 Inl e \<Rightarrow> Inl e
               | Inr pmin \<Rightarrow>
              (case amax part of
                 Inl e \<Rightarrow> Inl e
               | Inr pmax \<Rightarrow>
                  Inr (fsub pmin ylim_bot_scale, fadd pmax ylim_top_scale))))))))"

section \<open>Period Annotator: \<^verbatim>\<open>show_period\<close>\<close>

text \<open>The string of the period label at frame \<open>i\<close>.\<close>

definition period_text :: "formatting \<Rightarrow> chart \<Rightarrow> nat \<Rightarrow> error + string" where
  "period_text lib self i =
     (if period_fmt self \<noteq> [] then
        (case index (df self) of
           Timed ts \<Rightarrow>
             if i < length ts then Inr (strftime lib (ts ! i) (period_fmt self))
             else Inl (Lib IndexError)
         | Ordinal xs \<Rightarrow>
             if i < length xs then
               (case format_x lib (period_fmt self) (xs ! i) of
                  Inl e \<Rightarrow> Inl (Lib e)
                | Inr s \<Rightarrow> Inr s)
             else Inl (Lib IndexError))
      else
        (case index (df self) of
           Timed ts \<Rightarrow>
             if i < length ts then Inr (str_timestamp lib (ts ! i)) else Inl (Lib IndexError)
         | Ordinal xs \<Rightarrow>
             if i < length xs then Inr (str_number lib (xs ! i)) else Inl (Lib IndexError)))"

text \<open>The first block of \<^verbatim>\<open>show_period\<close>: \<^verbatim>\<open>if self.period_label: ...\<close>\<close>

definition show_label :: "formatting \<Rightarrow> chart \<Rightarrow> nat \<Rightarrow> axes \<Rightarrow> error + axes" where
  "show_label lib self i ax =
     (if truthy (period_label self) then
        (case period_text lib self i of
           Inl e \<Rightarrow> Inl e
         | Inr s \<Rightarrow>
             (let num_texts = length (texts ax) in
              if num_texts = 0 then
                (case get_period_label (period_label self) of
                   Inl e \<Rightarrow> Inl e
                 | Inr (PLDict kw) \<Rightarrow> ax_text lib [(''s'', PStr s)] kw ax
                 | Inr (PLBool b) \<Rightarrow> Inl (Lib TypeError))
              else Inr (ax\<lparr>texts := (texts ax)[0 := set_text (PStr s) (texts ax ! 0)]\<rparr>)))
      else Inr ax)"

text \<open>\<^verbatim>\<open>self.df.iloc[i]\<close>: the row of frame \<open>i\<close>.\<close>

fun cell_at :: "series \<Rightarrow> nat \<Rightarrow> cell" where
  "cell_at (Numeric xs) i = CNum (if i < length xs then xs ! i else None)"
| "cell_at (Datetime ts) i = CTime (if i < length ts then ts ! i else None)"
| "cell_at (Object ss) i = CStr (if i < length ss then ss ! i else None)"

definition iloc :: "table \<Rightarrow> nat \<Rightarrow> error + (label \<times> cell) list" where
  "iloc t i =
     (if i < nrows t then Inr (map (\<lambda>c. (fst c, cell_at (snd c) i)) (columns t))
      else Inl (Lib IndexError))"

definition summary_msg :: "string \<Rightarrow> string" where
  "summary_msg name =
     ''The dictionary returned from `'' @ name @ ''` must contain \"x\", \"y\", and \"s\"''"

text \<open>
  The second block: \<^verbatim>\<open>if self.period_summary_func: ...\<close>. The message of the
  validation error is built from \<^verbatim>\<open>self.period_summary_func.__name__\<close>, which is
  read first.
\<close>

definition show_summary :: "formatting \<Rightarrow> chart \<Rightarrow> nat \<Rightarrow> axes \<Rightarrow> error + axes" where
  "show_summary lib self i ax =
     (case period_summary_func self of
        None \<Rightarrow> Inr ax
      | Some f \<Rightarrow>
          (case iloc (df self) i of
             Inl e \<Rightarrow> Inl e
           | Inr vals \<Rightarrow>
               (let text_dict = func_call f vals in
                if \<not> has_key text_dict ''x'' \<or> \<not> has_key text_dict ''y''
                   \<or> \<not> has_key text_dict ''s''
                then
                  (case func_name f of
                     None \<Rightarrow> Inl (Lib AttributeError)
                   | Some name \<Rightarrow> Inl (Raised ValueError (summary_msg name)))
                else if length (texts ax) \<noteq> 2 then ax_text lib [] text_dict ax
                else
                  (case map_of text_dict ''s'' of
                     None \<Rightarrow> Inl (Lib KeyError)
                   | Some s \<Rightarrow>
                       Inr (ax\<lparr>texts := (texts ax)[1 := set_text s (texts ax ! 1)]\<rparr>)))))"

text \<open>
  The method: the axes as the call leaves them, and the exception if one is raised.
  Each block raises before it touches the axes.
\<close>

definition show_period :: "formatting \<Rightarrow> chart \<Rightarrow> nat \<Rightarrow> axes \<Rightarrow> axes \<times> error option" where
  "show_period lib self i ax =
     (case show_label lib self i ax of
        Inl e \<Rightarrow> (ax, Some e)
      | Inr ax1 \<Rightarrow>
          (case show_summary lib self i ax1 of
             Inl e \<Rightarrow> (ax1, Some e)
           | Inr ax2 \<Rightarrow> (ax2, None)))"

text \<open>The frames of an animation, one call per frame, until a call raises.\<close>

fun show_periods :: "formatting \<Rightarrow> chart \<Rightarrow> nat list \<Rightarrow> axes \<Rightarrow> axes \<times> error option" where
  "show_periods lib self [] ax = (ax, None)"
| "show_periods lib self (i # frames) ax =
     (case show_period lib self i ax of
        (ax', Some e) \<Rightarrow> (ax', Some e)
      | (ax', None) \<Rightarrow> show_periods lib self frames ax')"

section \<open>Sample inputs\<close>

text \<open>
  Concrete inputs for the instances below: a table with the columns \<open>a\<close>, \<open>b\<close>,
  \<open>c\<close> of which \<open>b\<close> holds strings; the table of three rows with the values 1, 2, 3;
  a matplotlib that knows one color map and one color name; string functions; and a
  summary function that reports the first cell of the row.
\<close>

definition abc_table :: table where
  "abc_table =
     \<lparr>index = Ordinal [0, 1],
      columns =
        [(LStr ''a'', Numeric [Some 1, Some 4]),
         (LStr ''b'', Object [Some ''u'', Some ''v'']),
         (LStr ''c'', Numeric [Some 3, Some 2])]\<rparr>"

definition three_rows :: table where
  "three_rows =
     \<lparr>index = Ordinal [0, 1, 2],
      columns = [(LStr ''value'', Numeric [Some 1, Some 2, Some 3])]\<rparr>"

definition sample_mpl :: mpl where
  "sample_mpl =
     \<lparr>get_cmap = (\<lambda>name. if name = ''gray''
        then Inr \<lparr>N = 256, lut = (\<lambda>k. RGBA (rat_of_nat k / 255) (rat_of_nat k / 255) (rat_of_nat k / 255) 1)\<rparr>
        else Inl ValueError),
      to_rgba = (\<lambda>name. if name = ''red'' then Inr (RGBA 1 0 0 1) else Inl ValueError)\<rparr>"

definition sample_formatting :: formatting where
  "sample_formatting =
     \<lparr>strftime = (\<lambda>t f. f),
      format_x = (\<lambda>f x. Inr f),
      str_number = (\<lambda>x. ''x''),
      str_timestamp = (\<lambda>t. ''t''),
      text_error = (\<lambda>kw.
        if list_all (\<lambda>k. k \<in> set [''x'', ''y'', ''s'', ''size'', ''ha'', ''color'']) (map fst kw)
        then None else Some AttributeError)\<rparr>"

fun first_cell :: "(label \<times> cell) list \<Rightarrow> pyval" where
  "first_cell ((l, CNum (Some v)) # r) = PFloat v"
| "first_cell r = PStr ''nan''"

definition sample_summary :: summary_func where
  "sample_summary =
     \<lparr>func_name = Some ''total'',
      func_call = (\<lambda>r. [(''x'', PFloat (1 / 2)), (''y'', PFloat (1 / 2)), (''s'', first_cell r)])\<rparr>"

definition no_y_summary :: summary_func where
  "no_y_summary =
     \<lparr>func_name = Some ''no_y'',
      func_call = (\<lambda>r. [(''x'', PFloat (1 / 2)), (''s'', first_cell r)])\<rparr>"

text \<open>The same callable wrapped by \<^verbatim>\<open>functools.partial\<close>: it has no \<^verbatim>\<open>__name__\<close>.\<close>

definition partial_no_y_summary :: summary_func where
  "partial_no_y_summary = no_y_summary\<lparr>func_name := None\<rparr>"



definition sample_chart :: "period_label \<Rightarrow> summary_func option \<Rightarrow> bool \<Rightarrow> chart" where
  "sample_chart pl f fixed =
     \<lparr>df = three_rows, period_fmt = [], period_label = pl, period_summary_func = f,
      fixed_max = fixed\<rparr>"

section \<open>Properties of the Interpolation Engine\<close>

lemma length_reindex_cells [simp]: "length (reindex_cells pos new_index xs) = length new_index"
  by (simp add: reindex_cells_def)

lemma slen_reindex_series [simp]: "slen (reindex_series pos new_index s) = length new_index"
  by (cases s) simp_all

lemma length_ffill_from [simp]: "length (ffill_from seen xs) = length xs"
  by (induction seen xs rule: ffill_from.induct) simp_all

lemma length_interp_from [simp]: "length (interp_from prev ps) = length ps"
  by (induction prev ps rule: interp_from.induct) simp_all

lemma length_interp [simp]: "length (interp xs ys) = min (length xs) (length ys)"
  by (simp add: interp_def)

lemma dtype_of_reindex_series [simp]: "dtype_of (reindex_series pos new_index s) = dtype_of s"
  by (cases s) simp_all



lemma length_date_range [simp]: "length (date_range a b n) = n"
  by (simp add: date_range_def)
















text \<open>
  Claim C5. The table of three rows with the values 1, 2, 3, ten steps per period and
  no interpolation of the period: 21 rows, the data column on the line from 1 to 3 in
  steps of 1/10, the index column forward-filled in blocks of ten rows.
\<close>

theorem interpolated_three_rows:
  "get_interpolated_df three_rows three_rows 10 False =
     Inr \<lparr>index = Ordinal (replicate 10 0 @ replicate 10 1 @ [2]),
          columns = [(LStr ''value'', Numeric (map (\<lambda>k. Some (1 + rat_of_nat k / 10)) [0..<21]))]\<rparr>
   \<and> length (replicate 10 (0::rat) @ replicate 10 1 @ [2]) = 21"
  by code_simp

section \<open>Properties of the Column Selector\<close>

lemma filter_label_unique:
  "distinct (map fst cs) \<Longrightarrow> c \<in> set cs \<Longrightarrow> filter (\<lambda>c'. fst c' = fst c) cs = [c]"
proof (induction cs)
  case Nil
  then show ?case by simp
next
  case (Cons a cs)
  show ?case
  proof (cases "a = c")
    case True
    with Cons.prems have "\<forall>c'\<in>set cs. fst c' \<noteq> fst c" by (auto simp: image_iff)
    then have "filter (\<lambda>c'. fst c' = fst c) cs = []" by (simp add: filter_empty_conv)
    with True show ?thesis by simp
  next
    case False
    with Cons.prems have "c \<in> set cs" by simp
    moreover from this Cons.prems have "fst a \<noteq> fst c" by (auto simp: image_iff)
    ultimately show ?thesis using Cons by simp
  qed
qed

lemma getitem_dtype_unique:
  "distinct (column_labels tab) \<Longrightarrow> c \<in> set (columns tab) \<Longrightarrow>
     getitem_dtype tab (fst c) = Inr (dtype_of (snd c))"
  by (simp add: getitem_dtype_def column_labels_def filter_label_unique)

lemma data_cols_loop_filter:
  assumes "distinct (column_labels tab)" "set cs \<subseteq> set (columns tab)"
  shows "data_cols_loop tab (map fst cs) acc =
           Inr (acc @ map fst (filter (\<lambda>c. issubdtype_number (dtype_of (snd c))) cs))"
  using assms(2)
proof (induction cs arbitrary: acc)
  case Nil
  then show ?case by simp
next
  case (Cons c cs)
  then have c: "c \<in> set (columns tab)" and rest: "set cs \<subseteq> set (columns tab)" by auto
  from c have "fst c \<in> set (column_labels tab)" by (auto simp: column_labels_def)
  with Cons.IH [OF rest] getitem_dtype_unique [OF assms(1) c] show ?case by simp
qed

lemma get_data_cols_eq:
  assumes "distinct (column_labels tab)"
  shows "get_data_cols tab =
           (if numeric_labels tab = [] then Inl (Raised PyException no_numeric_msg)
            else Inr (map str_label (numeric_labels tab)))"
  using data_cols_loop_filter [OF assms subset_refl, of "[]"]
  by (simp add: get_data_cols_def column_labels_def numeric_labels_def)

text \<open>
  Claim C7. For a table whose column labels are distinct, \<^verbatim>\<open>get_data_cols\<close> returns
  exactly the labels of the numeric columns, as strings and in the order of the table,
  and it raises the no-numeric-data error if and only if no column is numeric. The
  instance is the table with the columns \<open>a\<close>, \<open>b\<close>, \<open>c\<close>, where \<open>b\<close> holds strings.
\<close>

theorem get_data_cols_numeric:
  assumes "distinct (column_labels tab)"
  shows "get_data_cols tab =
           (if numeric_labels tab = [] then Inl (Raised PyException no_numeric_msg)
            else Inr (map str_label (numeric_labels tab)))
         \<and> ((\<exists>e. get_data_cols tab = Inl e) \<longleftrightarrow> numeric_labels tab = [])"
  using get_data_cols_eq [OF assms] by simp

theorem get_data_cols_numeric_witness:
  "distinct (column_labels abc_table) \<and> get_data_cols abc_table = Inr [''a'', ''c'']"
proof -
  have d: "distinct (column_labels abc_table)"
    by (simp add: column_labels_def abc_table_def)
  have n: "numeric_labels abc_table = [LStr ''a'', LStr ''c'']"
    by (simp add: numeric_labels_def abc_table_def)
  from get_data_cols_numeric [OF d] n show ?thesis using d by simp
qed

lemma data_cols_loop_not_raised:
  "set cols \<subseteq> set (column_labels tab) \<Longrightarrow> data_cols_loop tab cols acc \<noteq> Inl (Raised x m)"
proof (induction cols arbitrary: acc)
  case Nil
  then show ?case by simp
next
  case (Cons col cols)
  then have "col \<in> set (column_labels tab)" "set cols \<subseteq> set (column_labels tab)" by auto
  with Cons.IH show ?case
    by (auto simp: getitem_dtype_def split: sum.splits list.splits)
qed

text \<open>
  Claim C10. The branch of \<^verbatim>\<open>get_data_cols\<close> that raises the missing-column error is
  never taken: every label the loop visits is a label of the table, so the method never
  ends in that error, whatever the table.
\<close>

theorem missing_column_unreachable:
  "get_data_cols tab \<noteq> Inl (Raised PyException (missing_column_msg col))"
proof -
  have "no_numeric_msg \<noteq> missing_column_msg col"
    by (simp add: no_numeric_msg_def missing_column_msg_def)
  with data_cols_loop_not_raised [OF subset_refl, of tab "[]"] show ?thesis
    by (auto simp: get_data_cols_def split: sum.splits)
qed

theorem missing_column_unreachable_witness:
  "get_data_cols abc_table \<noteq> Inl (Raised PyException (missing_column_msg (LStr ''b'')))"
  by (rule missing_column_unreachable)

section \<open>Properties of the period label placement\<close>

text \<open>
  Claim C8, as amended. For every non-empty dictionary \<^verbatim>\<open>get_period_label\<close> raises the
  validation error if and only if the key \<open>x\<close> or the key \<open>y\<close> is missing, and
  returns the dictionary otherwise; for \<^verbatim>\<open>True\<close> it returns the default placement at
  the bottom right; for every falsy value, the empty dictionary among them, it returns
  \<^verbatim>\<open>False\<close> without an error.
\<close>

theorem get_period_label_cases:
  "(d \<noteq> [] \<longrightarrow>
      (get_period_label (PLDict d) =
         (if has_key d ''x'' \<and> has_key d ''y'' then Inr (PLDict d)
          else Inl (Raised ValueError period_label_msg)))
      \<and> ((\<exists>e. get_period_label (PLDict d) = Inl e) \<longleftrightarrow> \<not> has_key d ''x'' \<or> \<not> has_key d ''y''))
   \<and> get_period_label (PLBool True) = Inr (PLDict default_period_label)
   \<and> (\<not> truthy pl \<longrightarrow> get_period_label pl = Inr (PLBool False))"
  by (auto simp: get_period_label_def)

theorem get_period_label_cases_witness:
  "[(''x'', PFloat (1 / 2))] \<noteq> []
   \<and> get_period_label (PLDict [(''x'', PFloat (1 / 2))]) = Inl (Raised ValueError period_label_msg)
   \<and> \<not> truthy (PLDict []) \<and> get_period_label (PLDict []) = Inr (PLBool False)"
  using get_period_label_cases [of "[(''x'', PFloat (1 / 2))]" "PLDict []"]
  by (simp add: has_key_def)

text \<open>
  The claim as stated fails at the empty dictionary: both keys are missing and no error
  is raised.
\<close>

theorem get_period_label_empty_dict:
  "\<not> ((\<exists>e. get_period_label (PLDict []) = Inl e)
        \<longleftrightarrow> (\<not> has_key [] ''x'' \<or> \<not> has_key [] ''y''))"
  by (simp add: get_period_label_def has_key_def)

section \<open>Properties of the Color Resolver\<close>

text \<open>
  Claim C4, as amended. \<^verbatim>\<open>get_colors\<close> returns an explicit list as it is, the \<open>N\<close>
  entries of a color map (given as an instance or by its name), the 24 colors of the
  palette \<open>dark24\<close>, and for a single named color that color once per numeric data
  column. Only in the last case does the length follow the number of data columns.
\<close>

theorem get_colors_by_kind:
  "get_colors m tab (CmapList cs) = Inr cs
   \<and> get_colors m tab (CmapObj cm) = Inr (map (lut cm) [0..<N cm])
   \<and> get_colors m tab (CmapStr ''dark24'') = Inr DARK24 \<and> length DARK24 = 24
   \<and> (name \<noteq> ''dark24'' \<and> get_cmap m name = Inr cm \<longrightarrow>
        get_colors m tab (CmapStr name) = Inr (map (lut cm) [0..<N cm]))
   \<and> (name \<noteq> ''dark24'' \<and> get_cmap m name = Inl ValueError \<and> to_rgba m name = Inr c
        \<and> distinct (column_labels tab) \<and> numeric_labels tab \<noteq> [] \<longrightarrow>
        get_colors m tab (CmapStr name) = Inr (replicate (length (numeric_labels tab)) c))"
proof -
  have "get_colors m tab (CmapStr name) = Inr (replicate (length (numeric_labels tab)) c)"
    if "name \<noteq> ''dark24''" "get_cmap m name = Inl ValueError" "to_rgba m name = Inr c"
      "distinct (column_labels tab)" "numeric_labels tab \<noteq> []"
    using that get_data_cols_eq [OF that(4)]
    by (simp add: get_colors_def resolve_name_def)
  then show ?thesis
    by (simp add: get_colors_def resolve_name_def DARK24_def)
qed

theorem get_colors_by_kind_witness:
  "''red'' \<noteq> ''dark24'' \<and> get_cmap sample_mpl ''red'' = Inl ValueError
   \<and> to_rgba sample_mpl ''red'' = Inr (RGBA 1 0 0 1)
   \<and> distinct (column_labels abc_table) \<and> numeric_labels abc_table \<noteq> []
   \<and> get_colors sample_mpl abc_table (CmapStr ''red'') = Inr [RGBA 1 0 0 1, RGBA 1 0 0 1]"
  using get_colors_by_kind [of sample_mpl abc_table "[]" "get_cmap_result" "''red''" "RGBA 1 0 0 1"]
  by (simp add: sample_mpl_def abc_table_def column_labels_def numeric_labels_def)

text \<open>
  The claim as stated fails for a list shorter than the data columns: one color for the
  two numeric columns of the sample table.
\<close>

theorem get_colors_short_list:
  "get_colors sample_mpl abc_table (CmapList [ColorName ''red'']) = Inr [ColorName ''red'']
   \<and> length [ColorName ''red''] < length (numeric_labels abc_table)"
  by (simp add: get_colors_def numeric_labels_def abc_table_def)

text \<open>
  Claim C9. An explicit list of \<open>k\<close> colors, given for a table with \<open>k\<close> data
  columns, comes back with length \<open>k\<close> and every element unchanged.
\<close>

theorem get_colors_list_roundtrip:
  assumes "length cs = k" "length (numeric_labels tab) = k"
  shows "\<exists>out. get_colors m tab (CmapList cs) = Inr out \<and> length out = k \<and> out = cs"
  using assms by (simp add: get_colors_def)

theorem get_colors_list_roundtrip_witness:
  "length [ColorName ''red'', RGBA 0 0 1 1] = 2 \<and> length (numeric_labels abc_table) = 2
   \<and> (\<exists>out. get_colors sample_mpl abc_table (CmapList [ColorName ''red'', RGBA 0 0 1 1]) = Inr out
        \<and> length out = 2 \<and> out = [ColorName ''red'', RGBA 0 0 1 1])"
proof -
  have a: "length [ColorName ''red'', RGBA 0 0 1 1] = 2" by simp
  have b: "length (numeric_labels abc_table) = 2" by (simp add: numeric_labels_def abc_table_def)
  from get_colors_list_roundtrip [OF a b] a b show ?thesis by blast
qed

section \<open>Properties of the Axis Scaler\<close>

lemma fold_fmax_Some: "fold fmax (map Some r) (Some x) = Some (fold max r x)"
  by (induction r arbitrary: x) (simp_all add: fmax_def)

lemma fold_fmin_Some: "fold fmin (map Some r) (Some x) = Some (fold min r x)"
  by (induction r arbitrary: x) (simp_all add: fmin_def)

lemma amax_map_Some: "vs \<noteq> [] \<Longrightarrow> amax (map Some vs) = Inr (Some (Max (set vs)))"
proof (cases vs)
  case Nil
  assume "vs \<noteq> []"
  with Nil show ?thesis by simp
next
  case (Cons a r)
  have "fold max r a = Max (set vs)" unfolding Cons by (rule Max.set_eq_fold [symmetric])
  then show ?thesis by (simp add: Cons amax_def fold_fmax_Some)
qed

lemma amin_map_Some: "vs \<noteq> [] \<Longrightarrow> amin (map Some vs) = Inr (Some (Min (set vs)))"
proof (cases vs)
  case Nil
  assume "vs \<noteq> []"
  with Nil show ?thesis by simp
next
  case (Cons a r)
  have "fold min r a = Min (set vs)" unfolding Cons by (rule Min.set_eq_fold [symmetric])
  then show ?thesis by (simp add: Cons amin_def fold_fmin_Some)
qed

lemma values_upto_part:
  assumes "values_of t = Inr (map Some vs)" "values_upto t (Suc i) = Inr (map Some ps)"
  shows "set ps \<subseteq> set vs" "vs \<noteq> [] \<Longrightarrow> ps \<noteq> []"
proof -
  from assms(1) obtain cols where
    cols: "those (map (\<lambda>c. numeric_cells (snd c)) (columns t)) = Some cols"
    by (auto simp: values_of_def values_upto_def split: option.splits)
  with assms have vs: "map Some vs = concat (map (take (nrows t)) cols)"
    and ps: "map Some ps = concat (map (take (min (Suc i) (nrows t))) cols)"
    by (simp_all add: values_of_def values_upto_def)
  have "set (map Some ps) \<subseteq> set (map Some vs)"
    unfolding vs ps using set_take_subset_set_take [of "min (Suc i) (nrows t)" "nrows t"]
    by fastforce
  then show "set ps \<subseteq> set vs" by auto
  show "ps \<noteq> []" if "vs \<noteq> []"
  proof -
    from that have "map Some vs \<noteq> []" by simp
    then have "concat (map (take (nrows t)) cols) \<noteq> []" unfolding vs .
    then obtain c where c: "c \<in> set cols" "0 < nrows t" "c \<noteq> []" by auto
    then have "take (min (Suc i) (nrows t)) c \<noteq> []" by (cases "nrows t"; cases c) auto
    with c(1) have "concat (map (take (min (Suc i) (nrows t))) cols) \<noteq> []" by auto
    with ps show ?thesis by auto
  qed
qed

text \<open>
  Claim C3. For a numeric table without missing cells and every frame \<open>i\<close>, the
  y bounds are the minimum and maximum of the frame's base (the whole table when
  \<^verbatim>\<open>fixed_max\<close> is set, the rows up to \<open>i\<close> otherwise), widened by 5% of the global
  range of the whole table in both branches; the bottom padding is 0 when the global
  minimum is at least 0, the top padding is 0 when the global maximum is at most 0. So
  for data without negative values the lower bound is never below the data minimum,
  and for data without positive values the upper bound is never above the maximum.
\<close>

theorem y_limits_padding:
  assumes "values_of (df c) = Inr (map Some vs)"
    and "values_upto (df c) (i + 1) = Inr (map Some ps)"
    and "vs \<noteq> []"
  shows "y_limits c i = Inr
           (Some (Min (set (if fixed_max c then vs else ps))
                    - (if 0 \<le> Min (set vs) then 0 else spec_padding vs)),
            Some (Max (set (if fixed_max c then vs else ps))
                    + (if Max (set vs) \<le> 0 then 0 else spec_padding vs)))
         \<and> ((\<forall>v\<in>set vs. 0 \<le> v) \<longrightarrow>
              (\<exists>lo hi. y_limits c i = Inr (Some lo, Some hi) \<and> Min (set vs) \<le> lo \<and> 0 \<le> lo))
         \<and> ((\<forall>v\<in>set vs. v \<le> 0) \<longrightarrow>
              (\<exists>lo hi. y_limits c i = Inr (Some lo, Some hi) \<and> hi \<le> Max (set vs) \<and> hi \<le> 0))"
proof -
  let ?base = "if fixed_max c then vs else ps"
  from assms(2) have part: "values_upto (df c) (Suc i) = Inr (map Some ps)" by simp
  note sub = values_upto_part [OF assms(1) part]
  have ps: "ps \<noteq> []" using sub(2) assms(3) by simp
  have eq: "y_limits c i = Inr
           (Some (Min (set ?base) - (if 0 \<le> Min (set vs) then 0 else spec_padding vs)),
            Some (Max (set ?base) + (if Max (set vs) \<le> 0 then 0 else spec_padding vs)))"
    using assms(1) part assms(3) ps
    by (simp add: y_limits_def amax_map_Some amin_map_Some Let_def fsub_def fadd_def fmul_def
        fge_def fle_def spec_padding_def)
  have base: "set ?base \<subseteq> set vs" "?base \<noteq> []" using sub(1) ps assms(3) by auto
  have lo: "Min (set vs) \<le> Min (set ?base)"
    using base assms(3) by (intro Min_antimono) auto
  have hi: "Max (set ?base) \<le> Max (set vs)"
    using base assms(3) by (intro Max_mono) auto
  have "Min (set vs) \<le> Min (set ?base) - 0 \<and> 0 \<le> Min (set ?base) - 0" if "\<forall>v\<in>set vs. 0 \<le> v"
  proof -
    from that assms(3) have "0 \<le> Min (set vs)" by simp
    with lo show ?thesis by simp
  qed
  moreover have "Max (set ?base) + 0 \<le> Max (set vs) \<and> Max (set ?base) + 0 \<le> 0" if "\<forall>v\<in>set vs. v \<le> 0"
  proof -
    from that assms(3) have "Max (set vs) \<le> 0" by simp
    with hi show ?thesis by simp
  qed
  moreover have "0 \<le> Min (set vs)" if "\<forall>v\<in>set vs. 0 \<le> v" using that assms(3) by simp
  moreover have "Max (set vs) \<le> 0" if "\<forall>v\<in>set vs. v \<le> 0" using that assms(3) by simp
  ultimately show ?thesis unfolding eq by auto
qed

theorem y_limits_padding_witness:
  "values_of (df (sample_chart (PLBool False) None False)) = Inr (map Some [1, 2, 3])
   \<and> values_upto (df (sample_chart (PLBool False) None False)) (0 + 1) = Inr (map Some [1])
   \<and> [1, 2, 3] \<noteq> ([] :: rat list) \<and> 0 \<le> Min (set [1, 2, 3 :: rat])
   \<and> y_limits (sample_chart (PLBool False) None False) 0 = Inr (Some 1, Some (11 / 10))"
proof -
  let ?c = "sample_chart (PLBool False) None False"
  have a: "values_of (df ?c) = Inr (map Some [1, 2, 3])"
    by (simp add: sample_chart_def three_rows_def values_of_def values_upto_def nrows_def)
  have b: "values_upto (df ?c) (0 + 1) = Inr (map Some [1])"
    by (simp add: sample_chart_def three_rows_def values_upto_def nrows_def)
  have c: "[1, 2, 3] \<noteq> ([] :: rat list)" by simp
  have f: "\<not> fixed_max ?c" by (simp add: sample_chart_def)
  from y_limits_padding [OF a b c] f
  have "y_limits ?c 0 = Inr (Some 1, Some (11 / 10))" by (simp add: spec_padding_def)
  with a b show ?thesis by simp
qed

section \<open>Properties of the Period Annotator\<close>

lemma summary_msg_names: "sublist name (summary_msg name)"
  unfolding summary_msg_def by (rule sublist_appendI)

lemma show_summary_errors:
  assumes "show_summary lib c i ax = Inl (Raised x m)"
  obtains f row where "period_summary_func c = Some f" "iloc (df c) i = Inr row"
    "\<not> (has_key (func_call f row) ''x'' \<and> has_key (func_call f row) ''y''
        \<and> has_key (func_call f row) ''s'')"
  using assms
  by (auto simp: show_summary_def ax_text_def iloc_def Let_def
      split: option.splits sum.splits if_splits)

text \<open>
  For a summary function that has a name the validation works as documented: once the
  first block has run, a dictionary that lacks \<open>x\<close>, \<open>y\<close> or \<open>s\<close> ends the method
  in the \<^verbatim>\<open>ValueError\<close> whose message contains the name, with the axes as the first
  block left them; with the three keys present the method raises no error of its own.
\<close>

lemma named_summary_validation:
  assumes "show_label lib c i ax = Inr ax1"
    and "period_summary_func c = Some f"
    and "func_name f = Some name"
    and "iloc (df c) i = Inr row"
  shows "(\<not> (has_key (func_call f row) ''x'' \<and> has_key (func_call f row) ''y''
             \<and> has_key (func_call f row) ''s'') \<longrightarrow>
            show_period lib c i ax = (ax1, Some (Raised ValueError (summary_msg name)))
            \<and> sublist name (summary_msg name))
         \<and> (has_key (func_call f row) ''x'' \<and> has_key (func_call f row) ''y''
             \<and> has_key (func_call f row) ''s'' \<longrightarrow>
            (\<forall>x m. snd (show_period lib c i ax) \<noteq> Some (Raised x m)))"
proof (intro conjI impI)
  assume missing: "\<not> (has_key (func_call f row) ''x'' \<and> has_key (func_call f row) ''y''
             \<and> has_key (func_call f row) ''s'')"
  then have "show_summary lib c i ax1 = Inl (Raised ValueError (summary_msg name))"
    using assms(2,3,4) by (auto simp: show_summary_def Let_def)
  with assms(1) show "show_period lib c i ax = (ax1, Some (Raised ValueError (summary_msg name)))"
    by (simp add: show_period_def)
  show "sublist name (summary_msg name)" by (rule summary_msg_names)
next
  assume present: "has_key (func_call f row) ''x'' \<and> has_key (func_call f row) ''y''
             \<and> has_key (func_call f row) ''s''"
  show "\<forall>x m. snd (show_period lib c i ax) \<noteq> Some (Raised x m)"
  proof (intro allI notI)
    fix x m
    assume "snd (show_period lib c i ax) = Some (Raised x m)"
    with assms(1) have "show_summary lib c i ax1 = Inl (Raised x m)"
      by (auto simp: show_period_def split: sum.splits)
    then show False using assms(2,4) present by (elim show_summary_errors) auto
  qed
qed

text \<open>
  A summary function without a name: whenever its dictionary lacks a key, the method
  ends in the \<^verbatim>\<open>AttributeError\<close> of the read of \<^verbatim>\<open>__name__\<close>, not in the validation
  error.
\<close>

lemma unnamed_summary_error:
  assumes "show_label lib c i ax = Inr ax1"
    and "period_summary_func c = Some f"
    and "func_name f = None"
    and "iloc (df c) i = Inr row"
    and "\<not> (has_key (func_call f row) ''x'' \<and> has_key (func_call f row) ''y''
             \<and> has_key (func_call f row) ''s'')"
  shows "show_period lib c i ax = (ax1, Some (Lib AttributeError))"
proof -
  from assms(2-5) have "show_summary lib c i ax1 = Inl (Lib AttributeError)"
    by (auto simp: show_summary_def Let_def)
  with assms(1) show ?thesis by (simp add: show_period_def)
qed

text \<open>
  Claim C6. The summary function of the sample, wrapped by \<^verbatim>\<open>functools.partial\<close>,
  returns a dictionary without the key \<open>y\<close>. At frame 0 on fresh axes the method
  creates the period label and then raises \<^verbatim>\<open>AttributeError\<close>, where the claim and
  the docstring of the method promise the validation error that names the callable.
\<close>

theorem summary_without_name:
  "show_period sample_formatting
     (sample_chart (PLBool True) (Some partial_no_y_summary) False) 0 \<lparr>texts = []\<rparr>
   = (\<lparr>texts = [\<lparr>get_text = PStr ''x'', kwargs = default_period_label\<rparr>]\<rparr>,
      Some (Lib AttributeError))"
  by (simp add: show_period_def show_label_def show_summary_def sample_chart_def
      partial_no_y_summary_def no_y_summary_def three_rows_def iloc_def nrows_def ax_text_def
      has_key_def period_text_def sample_formatting_def get_period_label_def
      default_period_label_def)

lemma ax_text_length:
  "ax_text lib explicit kw ax = Inr ax' \<Longrightarrow> length (texts ax') = Suc (length (texts ax))"
  by (auto simp: ax_text_def Let_def split: if_splits option.splits)

lemma show_label_length:
  assumes "show_label lib c i ax = Inr ax'"
  shows "length (texts ax') = (if truthy (period_label c) \<and> texts ax = [] then 1 else length (texts ax))"
proof (cases "truthy (period_label c)")
  case False
  with assms show ?thesis by (simp add: show_label_def)
next
  case True
  with assms obtain s where s: "period_text lib c i = Inr s"
    by (auto simp: show_label_def split: sum.splits)
  show ?thesis
  proof (cases "texts ax = []")
    case True
    with assms s \<open>truthy (period_label c)\<close> obtain kw where
      "ax_text lib [(''s'', PStr s)] kw ax = Inr ax'"
      by (auto simp: show_label_def split: sum.splits period_label.splits)
    from ax_text_length [OF this] True \<open>truthy (period_label c)\<close> show ?thesis by simp
  next
    case False
    with assms s \<open>truthy (period_label c)\<close> show ?thesis
      by (auto simp: show_label_def)
  qed
qed

lemma show_summary_length:
  assumes "show_summary lib c i ax = Inr ax'" "length (texts ax) \<le> 2"
  shows "length (texts ax') \<le> 2"
proof (cases "period_summary_func c")
  case None
  with assms show ?thesis by (simp add: show_summary_def)
next
  case (Some f)
  with assms(1) obtain row where row: "iloc (df c) i = Inr row"
    by (auto simp: show_summary_def split: sum.splits)
  show ?thesis
  proof (cases "length (texts ax) = 2")
    case True
    with assms(1) Some row show ?thesis
      by (auto simp: show_summary_def Let_def split: if_splits option.splits)
  next
    case False
    with assms(1) Some row have "ax_text lib [] (func_call f row) ax = Inr ax'"
      by (auto simp: show_summary_def Let_def split: if_splits option.splits)
    from ax_text_length [OF this] False assms(2) show ?thesis by simp
  qed
qed

lemma show_period_texts_bounded:
  assumes "length (texts ax) \<le> 2"
  shows "length (texts (fst (show_period lib c i ax))) \<le> 2"
proof (cases "show_label lib c i ax")
  case (Inl e)
  with assms show ?thesis by (simp add: show_period_def)
next
  case (Inr ax1)
  from show_label_length [OF Inr] assms have l1: "length (texts ax1) \<le> 2"
    by (auto split: if_splits)
  show ?thesis
  proof (cases "show_summary lib c i ax1")
    case (Inl e)
    with Inr l1 show ?thesis by (simp add: show_period_def)
  next
    case r: (Inr ax2)
    from show_summary_length [OF r l1] Inr r show ?thesis by (simp add: show_period_def)
  qed
qed

lemma show_periods_texts_bounded:
  "length (texts ax) \<le> 2 \<Longrightarrow> length (texts (fst (show_periods lib c frames ax))) \<le> 2"
proof (induction frames arbitrary: ax)
  case Nil
  then show ?case by simp
next
  case (Cons i frames)
  from show_period_texts_bounded [OF Cons.prems, of lib c i]
  show ?case using Cons.IH
    by (cases "show_period lib c i ax") (auto split: option.splits)
qed

text \<open>
  Claim C2. With the period label switched off and a summary function set, three frames
  on fresh axes leave two text elements, both made by the summary block: the one of
  frame 0, never updated again, and the one made at frame 1, which the later frames
  update. The number of elements stays at most two (lemma
  \<open>show_periods_texts_bounded\<close>), but the summary has two elements, not one.
\<close>

theorem summary_created_twice:
  "show_periods sample_formatting (sample_chart (PLBool False) (Some sample_summary) False)
     [0, 1, 2] \<lparr>texts = []\<rparr>
   = (\<lparr>texts =
         [\<lparr>get_text = PFloat 1, kwargs = [(''x'', PFloat (1 / 2)), (''y'', PFloat (1 / 2))]\<rparr>,
          \<lparr>get_text = PFloat 3, kwargs = [(''x'', PFloat (1 / 2)), (''y'', PFloat (1 / 2))]\<rparr>]\<rparr>,
      None)"
  by (simp add: show_period_def show_label_def show_summary_def sample_chart_def
      sample_summary_def sample_formatting_def three_rows_def iloc_def nrows_def ax_text_def
      has_key_def set_text_def)

end
